theory Spec2Isabelle
  imports Complex_Main "HOL-Library.Multiset"
begin

section \<open>JavaScript values and errors\<close>

text \<open>
  A value as the JavaScript runtime holds it after a response body or a template has
  been decoded. \<open>JNum\<close> stands for a JavaScript number (only whether it is zero
  matters below), \<open>JObj\<close> lists the own properties of a decoded object, one entry per
  key, and \<open>JNative\<close> stands for a value that no JSON text denotes (a built-in
  function reached through a prototype, for instance).
\<close>

datatype jsval =
    JNull
  | JBool bool
  | JNum rat
  | JStr string
  | JArr "jsval list"
  | JObj "(string \<times> jsval) list"
  | JNative string

text \<open>The test that \<open>if (v)\<close> performs on a value that is not \<open>undefined\<close>.\<close>

fun truthy :: "jsval \<Rightarrow> bool" where
  "truthy JNull = False"
| "truthy (JBool b) = b"
| "truthy (JNum n) = (n \<noteq> 0)"
| "truthy (JStr s) = (s \<noteq> [])"
| "truthy (JArr _) = True"
| "truthy (JObj _) = True"
| "truthy (JNative _) = True"

text \<open>
  Member access \<open>v[k]\<close> on a value that is neither \<open>null\<close> nor \<open>undefined\<close>; the
  result \<open>None\<close> is \<open>undefined\<close>. An own key of a decoded object wins; every other
  property (array indices and \<open>length\<close>, what the prototypes contribute) is what the
  runtime supplies, taken as the parameter \<open>proto\<close>.
\<close>

definition get_member :: "(jsval \<Rightarrow> string \<Rightarrow> jsval option) \<Rightarrow> jsval \<Rightarrow> string \<Rightarrow> jsval option" where
  "get_member proto v k =
     (case v of
        JObj kvs \<Rightarrow> (case map_of kvs k of Some x \<Rightarrow> Some x | None \<Rightarrow> proto v k)
      | _ \<Rightarrow> proto v k)"

text \<open>Optional chaining \<open>v?.[k]\<close>: \<open>undefined\<close> and \<open>null\<close> short-circuit to \<open>undefined\<close>.\<close>

definition opt_member :: "(jsval \<Rightarrow> string \<Rightarrow> jsval option) \<Rightarrow> jsval option \<Rightarrow> string \<Rightarrow> jsval option" where
  "opt_member proto v k =
     (case v of
        None \<Rightarrow> None
      | Some JNull \<Rightarrow> None
      | Some x \<Rightarrow> get_member proto x k)"

section \<open>The templated HTTP uploader (CustomUploader)\<close>

text \<open>
  The reduce of \<open>getConfig\<close> writes \<open>pre[cur.name] = cur.value\<close> for each option in
  turn, so a later option of the same name overwrites an earlier one. A configuration
  is the resulting object, read by field name; a field no option sets is \<open>undefined\<close>.
\<close>

type_synonym UploaderOptions = "(string \<times> string) list"

type_synonym Config = "string \<Rightarrow> string option"

definition getConfig :: "UploaderOptions \<Rightarrow> Config" where
  "getConfig options = foldl (\<lambda>pre cur. pre(fst cur \<mapsto> snd cur)) Map.empty options"

text \<open>
  The form built by \<open>new FormData()\<close> and \<open>formData.append(name, createReadStream(path))\<close>:
  its parts in order, each a field name and the path of the file that is streamed.
\<close>

type_synonym FormData = "(string option \<times> string) list"

datatype header_value = HStr string | HNum nat

text \<open>What \<open>data\<close> of the request holds: the form, a plain value, or \<open>undefined\<close>.\<close>

datatype request_data = DataForm FormData | DataValue jsval | DataUndefined

record AxiosRequestConfig =
  req_url :: "string option"
  req_method :: "string option"
  req_headers :: "string \<Rightarrow> header_value option"
  req_params :: jsval
  req_data :: request_data

text \<open>
  The collaborators of the uploader. Each call that can throw returns a sum whose
  \<open>Inl\<close> carries the \<open>message\<close> of the error thrown.
  \<^item> \<open>getLength\<close>: the form library's byte length of the encoded multipart body;
  \<^item> \<open>getHeaders\<close>: the form library's multipart headers (content type and boundary);
  \<^item> \<open>JSON_parse\<close>: \<open>JSON.parse\<close>;
  \<^item> \<open>axios\<close>: the HTTP transport, returning the \<open>data\<close> of its response;
  \<^item> \<open>proto\<close>: the properties the runtime supplies beyond own keys.
\<close>

record runtime =
  getLength :: "FormData \<Rightarrow> string + nat"
  getHeaders :: "FormData \<Rightarrow> string \<Rightarrow> header_value option"
  JSON_parse :: "string \<Rightarrow> string + jsval"
  axios :: "AxiosRequestConfig \<Rightarrow> string + jsval option"
  proto :: "jsval \<Rightarrow> string \<Rightarrow> jsval option"

text \<open>Lines 28 to 30: the form always receives the file under \<open>fileFieldName\<close>.\<close>

definition upload_form :: "Config \<Rightarrow> string \<Rightarrow> FormData" where
  "upload_form uploaderOptions filePath = [(uploaderOptions ''fileFieldName'', filePath)]"

text \<open>
  Lines 28 to 49, up to the request object. \<open>requestParams ? JSON.parse(...) : {}\<close>
  treats a missing and an empty template alike.
\<close>

definition build_request :: "runtime \<Rightarrow> Config \<Rightarrow> string \<Rightarrow> string + AxiosRequestConfig" where
  "build_request rt uploaderOptions filePath =
     (let formData = upload_form uploaderOptions filePath in
      case getLength rt formData of
        Inl err \<Rightarrow> Inl err
      | Inr len \<Rightarrow>
          (case (case uploaderOptions ''requestParams'' of
                   None \<Rightarrow> Inr (JObj [])
                 | Some s \<Rightarrow> if s = [] then Inr (JObj []) else JSON_parse rt s) of
             Inl err \<Rightarrow> Inl err
           | Inr params \<Rightarrow>
               Inr \<lparr> req_url = uploaderOptions ''url'',
                     req_method = uploaderOptions ''method'',
                     req_headers = (getHeaders rt formData)(''Content-Length'' \<mapsto> HNum len),
                     req_params = params,
                     req_data =
                       (if uploaderOptions ''contentType'' = Some ''multipart/form-data''
                        then DataForm formData
                        else (case uploaderOptions ''requestBody'' of
                                None \<Rightarrow> DataUndefined
                              | Some s \<Rightarrow> DataValue (JStr s))) \<rparr>))"

text \<open>
  The uploader's answer. The description of the generic failure is the literal of
  line 63 (in English: upload failed), kept as a constructor of its own.
\<close>

datatype custom_response =
    CustomSuccess jsval
  | CustomFailGeneric
  | CustomFailMessage string

text \<open>Line 52: \<open>res?.data?.[responseUrlFieldName]\<close>.\<close>

definition response_url :: "runtime \<Rightarrow> Config \<Rightarrow> jsval option \<Rightarrow> jsval option" where
  "response_url rt uploaderOptions res =
     (case opt_member (proto rt) res ''data'' of
        None \<Rightarrow> None
      | Some JNull \<Rightarrow> None
      | Some d \<Rightarrow>
          (case uploaderOptions ''responseUrlFieldName'' of
             None \<Rightarrow> get_member (proto rt) d ''undefined''
           | Some f \<Rightarrow> get_member (proto rt) d f))"

text \<open>
  \<open>CustomUploader.upload\<close>, lines 26 to 72: the whole body is inside one
  \<open>try\<close>, whose \<open>catch\<close> turns any error into a failure with its message.
\<close>

definition custom_upload :: "runtime \<Rightarrow> UploaderOptions \<Rightarrow> string \<Rightarrow> string \<Rightarrow> custom_response" where
  "custom_upload rt options filePath fileName =
     (let uploaderOptions = getConfig options in
      case build_request rt uploaderOptions filePath of
        Inl err \<Rightarrow> CustomFailMessage err
      | Inr requestOpetion \<Rightarrow>
          (case axios rt requestOpetion of
             Inl err \<Rightarrow> CustomFailMessage err
           | Inr res \<Rightarrow>
               (case response_url rt uploaderOptions res of
                  None \<Rightarrow> CustomFailGeneric
                | Some imageUrl \<Rightarrow>
                    if truthy imageUrl then CustomSuccess imageUrl else CustomFailGeneric)))"

section \<open>The upload orchestrator (UploaderManager)\<close>

subsection \<open>Data\<close>

text \<open>
  A stored profile, with the fields the orchestrator reads (\<open>id\<close>, \<open>uploaderName\<close>,
  \<open>uploaderOptions\<close>) and the default mark.
\<close>

record UploaderProfile =
  profile_id :: string
  uploaderName :: string
  uploaderOptions :: UploaderOptions
  isDefault :: bool

text \<open>
  The interface \<open>UploadedFileInfo\<close> of lines 12 to 27; an optional field is an
  \<open>option\<close>.
\<close>

record UploadedFileInfo =
  info_id :: "string option"
  info_name :: "string option"
  info_url :: "string option"
  info_type :: string
  info_uploaderProfileId :: string
  info_path :: string
  info_size :: "nat option"
  info_date :: nat
  info_errorMessage :: "string option"

text \<open>
  What a backend answers. The \<open>data\<close> of a success is spread over the base record
  (line 110), so it is taken to carry any of the optional fields \<open>name\<close>, \<open>url\<close> and
  \<open>size\<close>; a failure carries its description \<open>desc\<close>.
\<close>

record success_data =
  data_name :: "string option"
  data_url :: "string option"
  data_size :: "nat option"

datatype upload_response = SuccessResponse success_data | FailResponse string

text \<open>
  A backend of the registry. \<open>upload_call\<close> is the outcome of
  \<open>uploader.upload(file, fileName, directoryPath, isFromFileManage)\<close> under the options
  last set by \<open>changeOptions\<close>: \<open>Inl m\<close> when the call throws or its promise rejects
  with an error of message \<open>m\<close>. The three file-management operations are optional.
\<close>

record Uploader =
  upload_call :: "UploaderOptions \<Rightarrow> string \<Rightarrow> string \<Rightarrow> string option \<Rightarrow> bool \<Rightarrow> string + upload_response"
  getFileList_op :: "(UploaderOptions \<Rightarrow> string option \<Rightarrow> string + jsval) option"
  deleteFile_op :: "(UploaderOptions \<Rightarrow> string list \<Rightarrow> string + jsval) option"
  createDirectory_op :: "(UploaderOptions \<Rightarrow> string \<Rightarrow> string + jsval) option"

text \<open>
  An error raised inside the orchestrator: one thrown by a backend, with its message,
  or the \<open>TypeError\<close> of reading the named property of \<open>undefined\<close>.
\<close>

datatype js_error = Thrown string | UndefinedProperty string

text \<open>
  The literal titles and bodies of the notifications. The source writes them in
  Chinese; each constructor stands for one literal (or one template with its holes as
  arguments), named by its meaning and the line it is on.
\<close>

datatype notification_title =
    TitleUploadAbnormal       \<comment> \<open>lines 73, 76, 86, 130\<close>
  | TitleBatchSucceeded       \<comment> \<open>line 180\<close>
  | TitleBatchFailed          \<comment> \<open>line 183\<close>
  | TitleBatchFinished        \<comment> \<open>line 187\<close>
  | TitleUploadSucceeded      \<comment> \<open>lines 218, 235\<close>
  | TitleClipboardRestored    \<comment> \<open>line 227\<close>
  | TitleUploadFailed         \<comment> \<open>line 242\<close>

datatype notification_body =
    BodyProfileNotExist               \<comment> \<open>line 73: the uploader profile does not exist\<close>
  | BodySetDefaultUploader            \<comment> \<open>line 75: please configure the default uploader\<close>
  | BodyAddUploaderProfile            \<comment> \<open>line 75: please add an uploader profile\<close>
  | BodyUploaderNotFound string       \<comment> \<open>line 85: the uploader of this name was not found\<close>
  | BodyErrorMessage js_error         \<comment> \<open>line 130: \<open>err.message\<close>\<close>
  | BodyTotalFiles nat                \<comment> \<open>lines 180, 183: that many files in total\<close>
  | BodySucceededFailed nat nat       \<comment> \<open>line 188: that many succeeded, that many failed\<close>
  | BodyLinkCopied                    \<comment> \<open>line 219: the link was copied to the clipboard\<close>
  | BodyClipboardRestored             \<comment> \<open>line 228: the previous clipboard content is back\<close>
  | BodyText string                   \<comment> \<open>lines 236, 242: a text computed at run time\<close>
  | BodyErrorNotCaught                \<comment> \<open>line 242: the placeholder for a missing message\<close>

datatype payload = NoPayload | PayloadHistory "UploadedFileInfo list" | PayloadValue jsval

text \<open>
  What a call does to the world, in order: the log of its calls to the collaborators.
  \<open>ShowNotification t b s\<close> is \<open>new Notification({title, body, silent}).show()\<close>;
  \<open>SetTimeout d es\<close> schedules the effects \<open>es\<close> after \<open>d\<close> milliseconds.
\<close>

datatype effect =
    ChangeOptions string UploaderOptions
  | BackendUpload string string string "string option" bool
  | HistoryAdd "UploadedFileInfo list"
  | IpcSend string payload
  | ShowNotification notification_title notification_body bool
  | ClipboardWrite string
  | SetTimeout nat "effect list"

text \<open>
  The collaborators and the environment of one call.
  \<^item> \<open>defaultUploaderProfileId\<close> to \<open>showNotifaction\<close>: \<open>setting.configuration\<close>;
  \<^item> \<open>getAll\<close>: the stored profiles; \<open>getUploaderByName\<close>: the backend registry;
  \<^item> \<open>history_add\<close>: the full history that \<open>history.add\<close> returns;
  \<^item> \<open>isDestroyed\<close>: \<open>Ipc.win.isDestroyed()\<close>; \<open>readText\<close>: the clipboard's text;
  \<^item> \<open>extname\<close>, \<open>mime_lookup\<close> (\<open>None\<close> for \<open>false\<close>): the path and MIME libraries;
  \<^item> \<open>uuidv4\<close>: the identifiers generated, by the number of the call;
  \<^item> \<open>getTime\<close>: the clock when the file of that index is launched;
  \<^item> \<open>picks\<close>: the order in which the pending uploads settle (see below).
\<close>

record world =
  defaultUploaderProfileId :: string
  urlType :: string
  autoCopy :: bool
  autoRecover :: bool
  sound :: bool
  showNotifaction :: bool
  getAll :: "UploaderProfile list"
  getUploaderByName :: "string \<Rightarrow> Uploader option"
  history_add :: "UploadedFileInfo list \<Rightarrow> UploadedFileInfo list"
  isDestroyed :: bool
  readText :: string
  extname :: "string \<Rightarrow> string"
  mime_lookup :: "string \<Rightarrow> string option"
  uuidv4 :: "nat \<Rightarrow> string"
  getTime :: "nat \<Rightarrow> nat"
  picks :: "nat list"

subsection \<open>Result presentation\<close>

text \<open>\<open>handleBatchUploaded\<close>, lines 178 to 192.\<close>

definition handleBatchUploaded :: "nat \<Rightarrow> nat \<Rightarrow> effect list" where
  "handleBatchUploaded successFilesCount failFilesCount =
     (if failFilesCount = 0
      then [ShowNotification TitleBatchSucceeded (BodyTotalFiles successFilesCount) False]
      else if successFilesCount = 0
      then [ShowNotification TitleBatchFailed (BodyTotalFiles failFilesCount) False]
      else [ShowNotification TitleBatchFinished
              (BodySucceededFailed successFilesCount failFilesCount) False])"

text \<open>A template literal prints \<open>undefined\<close> for a missing value; \<open>x || ''\<close> gives the empty text.\<close>

definition template_text :: "string option \<Rightarrow> string" where
  "template_text v = (case v of None \<Rightarrow> ''undefined'' | Some s \<Rightarrow> s)"

definition or_empty :: "string option \<Rightarrow> string" where
  "or_empty v = (case v of None \<Rightarrow> [] | Some s \<Rightarrow> s)"

text \<open>
  The \<open>switch\<close> of lines 198 to 209: the text for the clipboard, or \<open>None\<close> when the
  \<open>default\<close> branch returns from the function.
\<close>

definition format_url :: "string \<Rightarrow> string option \<Rightarrow> string option option" where
  \<open>format_url ut u =
     (if ut = ''URL'' then Some u
      else if ut = ''HTML'' then Some (Some (''<img src="'' @ template_text u @ ''" />''))
      else if ut = ''Markdown''
      then Some (Some (''!['' @ template_text u @ ''](''  @ template_text u @ '')''))
      else None)\<close>

text \<open>
  \<open>handleSingleUploaded\<close>, lines 194 to 245: its effects, and either the value it
  returns (\<open>None\<close> for \<open>undefined\<close>) or the error it raises. \<open>failFile.errorMessage\<close>
  on a missing \<open>failFile\<close> raises.
\<close>

definition handleSingleUploaded ::
  "world \<Rightarrow> UploadedFileInfo option \<Rightarrow> UploadedFileInfo option
    \<Rightarrow> effect list \<times> (js_error + string option)" where
  "handleSingleUploaded w successFile failFile =
     (case successFile of
        Some sf \<Rightarrow>
          (case format_url (urlType w) (info_url sf) of
             None \<Rightarrow> ([], Inr (info_url sf))
           | Some clipboardUrl \<Rightarrow>
               if autoCopy w
               then
                 (let preClipBoardText = (if autoRecover w then readText w else [])
                  in ([ClipboardWrite (or_empty clipboardUrl)]
                      @ (if showNotifaction w
                         then [ShowNotification TitleUploadSucceeded BodyLinkCopied (\<not> sound w)]
                         else [])
                      @ (if autoRecover w
                         then [SetTimeout 5000
                                 [ClipboardWrite preClipBoardText,
                                  ShowNotification TitleClipboardRestored BodyClipboardRestored
                                    (\<not> sound w)]]
                         else []),
                      Inr None))
               else
                 ((if showNotifaction w
                   then [ShowNotification TitleUploadSucceeded (BodyText (or_empty clipboardUrl))
                           (\<not> sound w)]
                   else []),
                  Inr None))
      | None \<Rightarrow>
          (case failFile of
             None \<Rightarrow> ([], Inl (UndefinedProperty ''errorMessage''))
           | Some ff \<Rightarrow>
               ([ShowNotification TitleUploadFailed
                   (case info_errorMessage ff of
                      None \<Rightarrow> BodyErrorNotCaught
                    | Some m \<Rightarrow> if m = [] then BodyErrorNotCaught else BodyText m)
                   False],
                Inr None)))"

text \<open>\<open>handleAddHistory\<close>, lines 247 to 252.\<close>

definition handleAddHistory :: "world \<Rightarrow> UploadedFileInfo list \<Rightarrow> effect list" where
  "handleAddHistory w uploadedData =
     HistoryAdd uploadedData
     # (if \<not> isDestroyed w
        then [IpcSend ''uploaded-files-get-reply'' (PayloadHistory (history_add w uploadedData))]
        else [])"

subsection \<open>One batch\<close>

text \<open>
  Lines 97 to 107, for the file of index \<open>i\<close>. The callback of \<open>files.map\<close> runs for
  each file in turn up to its \<open>await\<close>, drawing two identifiers per file: the first
  for the name, the second for the id.
\<close>

definition fileName_of :: "world \<Rightarrow> nat \<Rightarrow> string \<Rightarrow> string" where
  "fileName_of w i file = uuidv4 w (2 * i) @ extname w file"

definition baseInfo :: "world \<Rightarrow> UploaderProfile \<Rightarrow> nat \<times> string \<Rightarrow> UploadedFileInfo" where
  "baseInfo w uploaderProfile x =
     (case x of (i, file) \<Rightarrow>
        \<lparr> info_id = Some (uuidv4 w (2 * i + 1)),
          info_name = Some (fileName_of w i file),
          info_url = None,
          info_type = (case mime_lookup w file of
                         None \<Rightarrow> ''-''
                       | Some t \<Rightarrow> if t = [] then ''-'' else t),
          info_uploaderProfileId = profile_id uploaderProfile,
          info_path = file,
          info_size = None,
          info_date = getTime w i,
          info_errorMessage = None \<rparr>)"

text \<open>The spread \<open>{ ...baseInfo, ...res.data }\<close> of line 110: a field of the data that is present wins.\<close>

definition spread_data :: "UploadedFileInfo \<Rightarrow> success_data \<Rightarrow> UploadedFileInfo" where
  "spread_data b d =
     b \<lparr> info_name := (case data_name d of None \<Rightarrow> info_name b | Some n \<Rightarrow> Some n),
         info_url := (case data_url d of None \<Rightarrow> info_url b | Some u \<Rightarrow> Some u),
         info_size := (case data_size d of None \<Rightarrow> info_size b | Some n \<Rightarrow> Some n) \<rparr>"

text \<open>Line 108: the backend's answer for the file of index \<open>i\<close>.\<close>

definition backend_result ::
  "world \<Rightarrow> UploaderProfile \<Rightarrow> Uploader \<Rightarrow> string option \<Rightarrow> bool \<Rightarrow> nat \<times> string
    \<Rightarrow> string + upload_response" where
  "backend_result w uploaderProfile uploader directoryPath isFromFileManage x =
     (case x of (i, file) \<Rightarrow>
        upload_call uploader (uploaderOptions uploaderProfile) file (fileName_of w i file)
          directoryPath isFromFileManage)"

text \<open>
  How the promise of one file settles: rejected with the backend's error, or
  fulfilled after pushing a record to \<open>successRes\<close> or to \<open>failRes\<close> (lines 108 to 113).
\<close>

datatype settled = Rejected js_error | PushedSuccess UploadedFileInfo | PushedFail UploadedFileInfo

definition file_task ::
  "world \<Rightarrow> UploaderProfile \<Rightarrow> Uploader \<Rightarrow> string option \<Rightarrow> bool \<Rightarrow> nat \<times> string \<Rightarrow> settled" where
  "file_task w uploaderProfile uploader directoryPath isFromFileManage x =
     (case backend_result w uploaderProfile uploader directoryPath isFromFileManage x of
        Inl m \<Rightarrow> Rejected (Thrown m)
      | Inr (SuccessResponse d) \<Rightarrow> PushedSuccess (spread_data (baseInfo w uploaderProfile x) d)
      | Inr (FailResponse desc) \<Rightarrow>
          PushedFail ((baseInfo w uploaderProfile x) \<lparr> info_errorMessage := Some desc \<rparr>))"

text \<open>
  The uploads of a batch are all launched before any of them settles, and they settle
  in an order the environment chooses. The order is given by a list of picks: each pick
  selects, modulo the number of uploads still pending, the one that settles next; when
  the picks are used up, the rest settle in the order of launch.
\<close>

function completion_order :: "nat list \<Rightarrow> 'a list \<Rightarrow> 'a list" where
  "completion_order ks [] = []"
| "completion_order [] (t # ts) = t # ts"
| "completion_order (k # ks) (t # ts) =
     (t # ts) ! (k mod length (t # ts))
     # completion_order ks
         (take (k mod length (t # ts)) (t # ts) @ drop (Suc (k mod length (t # ts))) (t # ts))"
  by pat_completeness auto
termination
  by (relation "measure (\<lambda>(ks, ts). length ts)") auto

text \<open>
  \<open>await Promise.all(promises)\<close> over the settled promises, in the order they
  settle: the first rejection is the error raised at line 116; without one, the two
  arrays hold the pushes in the order they were made.
\<close>

fun gather ::
  "settled list \<Rightarrow> UploadedFileInfo list \<Rightarrow> UploadedFileInfo list
    \<Rightarrow> js_error + (UploadedFileInfo list \<times> UploadedFileInfo list)" where
  "gather [] successRes failRes = Inr (successRes, failRes)"
| "gather (Rejected e # rest) successRes failRes = Inl e"
| "gather (PushedSuccess r # rest) successRes failRes = gather rest (successRes @ [r]) failRes"
| "gather (PushedFail r # rest) successRes failRes = gather rest successRes (failRes @ [r])"

text \<open>Lines 93 to 116: the two partitions of the batch, or the error of the first rejection.\<close>

definition aggregate ::
  "world \<Rightarrow> UploaderProfile \<Rightarrow> Uploader \<Rightarrow> string list \<Rightarrow> string option \<Rightarrow> bool
    \<Rightarrow> js_error + (UploadedFileInfo list \<times> UploadedFileInfo list)" where
  "aggregate w uploaderProfile uploader files directoryPath isFromFileManage =
     gather
       (completion_order (picks w)
          (map (file_task w uploaderProfile uploader directoryPath isFromFileManage)
             (enumerate 0 files)))
       [] []"

text \<open>Lines 91 to 108: the options are applied, then every file's upload is invoked.\<close>

definition launch ::
  "world \<Rightarrow> UploaderProfile \<Rightarrow> string list \<Rightarrow> string option \<Rightarrow> bool \<Rightarrow> effect list" where
  "launch w uploaderProfile files directoryPath isFromFileManage =
     ChangeOptions (uploaderName uploaderProfile) (uploaderOptions uploaderProfile)
     # map (\<lambda>x. case x of (i, file) \<Rightarrow>
              BackendUpload (uploaderName uploaderProfile) file (fileName_of w i file)
                directoryPath isFromFileManage)
         (enumerate 0 files)"

text \<open>\<open>xs[0]\<close> on an array: \<open>undefined\<close> when it is empty.\<close>

definition first_elem :: "'a list \<Rightarrow> 'a option" where
  "first_elem xs = (case xs of [] \<Rightarrow> None | x # _ \<Rightarrow> Some x)"

text \<open>Lines 124 to 128.\<close>

definition present ::
  "world \<Rightarrow> string list \<Rightarrow> UploadedFileInfo list \<Rightarrow> UploadedFileInfo list
    \<Rightarrow> effect list \<times> (js_error + unit)" where
  "present w files successRes failRes =
     (if length files > 1
      then (handleBatchUploaded (length successRes) (length failRes), Inr ())
      else (case handleSingleUploaded w (first_elem successRes) (first_elem failRes) of
              (es, Inl err) \<Rightarrow> (es, Inl err)
            | (es, Inr _) \<Rightarrow> (es, Inr ())))"

text \<open>The profile that lines 66 to 68 find: \<open>customUploaderProfileId || defaultUploaderProfileId\<close>.\<close>

definition resolve_profile :: "world \<Rightarrow> string \<Rightarrow> UploaderProfile option" where
  "resolve_profile w customUploaderProfileId =
     find (\<lambda>uploaderProfile. profile_id uploaderProfile =
             (if customUploaderProfileId \<noteq> [] then customUploaderProfileId
              else defaultUploaderProfileId w))
       (getAll w)"

text \<open>What \<open>upload\<close> returns: \<open>false\<close>, or nothing.\<close>

datatype upload_return = ReturnFalse | ReturnUndefined

text \<open>The body of the \<open>try\<close> block, lines 62 to 128: its effects, and its return value or the error it raises.\<close>

definition upload_try ::
  "world \<Rightarrow> string list \<Rightarrow> string \<Rightarrow> string option \<Rightarrow> bool
    \<Rightarrow> effect list \<times> (js_error + upload_return)" where
  "upload_try w files customUploaderProfileId directoryPath isFromFileManage =
     (case resolve_profile w customUploaderProfileId of
        None \<Rightarrow>
          ([ShowNotification TitleUploadAbnormal
              (if customUploaderProfileId \<noteq> [] then BodyProfileNotExist
               else if length (getAll w) > 0 then BodySetDefaultUploader
               else BodyAddUploaderProfile)
              False],
           Inr ReturnFalse)
      | Some uploaderProfile \<Rightarrow>
          (case getUploaderByName w (uploaderName uploaderProfile) of
             None \<Rightarrow>
               ([ShowNotification TitleUploadAbnormal
                   (BodyUploaderNotFound (uploaderName uploaderProfile)) False],
                Inr ReturnFalse)
           | Some uploader \<Rightarrow>
               (case aggregate w uploaderProfile uploader files directoryPath isFromFileManage of
                  Inl err \<Rightarrow>
                    (launch w uploaderProfile files directoryPath isFromFileManage, Inl err)
                | Inr (successRes, failRes) \<Rightarrow>
                    (case present w files successRes failRes of
                       (es, r) \<Rightarrow>
                         (launch w uploaderProfile files directoryPath isFromFileManage
                          @ handleAddHistory w (failRes @ successRes)
                          @ (if isFromFileManage then [IpcSend ''file-upload-reply'' NoPayload]
                             else [])
                          @ es,
                          (case r of Inl err \<Rightarrow> Inl err | Inr _ \<Rightarrow> Inr ReturnUndefined))))))"

text \<open>
  \<open>UploaderManager.upload\<close>, lines 60 to 133: the \<open>catch\<close> of line 129 shows the
  error's message and the call returns nothing.
\<close>

definition upload ::
  "world \<Rightarrow> string list \<Rightarrow> string \<Rightarrow> string option \<Rightarrow> bool \<Rightarrow> effect list \<times> upload_return" where
  "upload w files customUploaderProfileId directoryPath isFromFileManage =
     (case upload_try w files customUploaderProfileId directoryPath isFromFileManage of
        (es, Inl err) \<Rightarrow>
          (es @ [ShowNotification TitleUploadAbnormal (BodyErrorMessage err) False],
           ReturnUndefined)
      | (es, Inr r) \<Rightarrow> (es, r))"

subsection \<open>File management\<close>

text \<open>\<open>getUploader\<close>, lines 165 to 176: the effects, and the backend or \<open>undefined\<close>.\<close>

definition getUploader :: "world \<Rightarrow> string \<Rightarrow> effect list \<times> (UploaderProfile \<times> Uploader) option" where
  "getUploader w ident =
     (case find (\<lambda>uploaderProfile. profile_id uploaderProfile = ident) (getAll w) of
        None \<Rightarrow> ([], None)
      | Some uploaderProfile \<Rightarrow>
          (case getUploaderByName w (uploaderName uploaderProfile) of
             None \<Rightarrow> ([], None)
           | Some uploader \<Rightarrow>
               ([ChangeOptions (uploaderName uploaderProfile) (uploaderOptions uploaderProfile)],
                Some (uploaderProfile, uploader))))"

text \<open>
  The three variants, lines 135 to 163. Each awaits the backend's operation outside
  any \<open>try\<close>, so an error of the backend is the error of the call (\<open>Inl\<close>).
\<close>

definition getFileList :: "world \<Rightarrow> string \<Rightarrow> string option \<Rightarrow> effect list \<times> (string + unit)" where
  "getFileList w uploaderProfileId directoryPath =
     (case getUploader w uploaderProfileId of
        (es, None) \<Rightarrow> (es @ [IpcSend ''file-list-get-reply'' (PayloadValue (JArr []))], Inr ())
      | (es, Some (uploaderProfile, uploader)) \<Rightarrow>
          (case getFileList_op uploader of
             None \<Rightarrow> (es @ [IpcSend ''file-list-get-reply'' (PayloadValue (JArr []))], Inr ())
           | Some run \<Rightarrow>
               (case run (uploaderOptions uploaderProfile) directoryPath of
                  Inl m \<Rightarrow> (es, Inl m)
                | Inr data \<Rightarrow> (es @ [IpcSend ''file-list-get-reply'' (PayloadValue data)], Inr ()))))"

definition deleteFile :: "world \<Rightarrow> string \<Rightarrow> string list \<Rightarrow> effect list \<times> (string + unit)" where
  "deleteFile w uploaderProfileId fileNames =
     (case getUploader w uploaderProfileId of
        (es, None) \<Rightarrow> (es @ [IpcSend ''file-delete-reply'' (PayloadValue (JBool False))], Inr ())
      | (es, Some (uploaderProfile, uploader)) \<Rightarrow>
          (case deleteFile_op uploader of
             None \<Rightarrow> (es @ [IpcSend ''file-delete-reply'' (PayloadValue (JBool False))], Inr ())
           | Some run \<Rightarrow>
               (case run (uploaderOptions uploaderProfile) fileNames of
                  Inl m \<Rightarrow> (es, Inl m)
                | Inr res \<Rightarrow> (es @ [IpcSend ''file-delete-reply'' (PayloadValue res)], Inr ()))))"

definition createDirectory :: "world \<Rightarrow> string \<Rightarrow> string \<Rightarrow> effect list \<times> (string + unit)" where
  "createDirectory w uploaderProfileId directoryPath =
     (case getUploader w uploaderProfileId of
        (es, None) \<Rightarrow> (es @ [IpcSend ''directory-create-reply'' (PayloadValue (JBool False))], Inr ())
      | (es, Some (uploaderProfile, uploader)) \<Rightarrow>
          (case createDirectory_op uploader of
             None \<Rightarrow> (es @ [IpcSend ''directory-create-reply'' (PayloadValue (JBool False))], Inr ())
           | Some run \<Rightarrow>
               (case run (uploaderOptions uploaderProfile) directoryPath of
                  Inl m \<Rightarrow> (es, Inl m)
                | Inr data \<Rightarrow> (es @ [IpcSend ''directory-create-reply'' (PayloadValue data)], Inr ()))))"

subsection \<open>Observations on an effect log\<close>

text \<open>The lists appended to the history, the messages sent to the window, the texts written to the clipboard and the notifications shown, each in order.\<close>

fun history_appends :: "effect list \<Rightarrow> UploadedFileInfo list list" where
  "history_appends [] = []"
| "history_appends (HistoryAdd rs # es) = rs # history_appends es"
| "history_appends (e # es) = history_appends es"

fun ipc_sends :: "effect list \<Rightarrow> (string \<times> payload) list" where
  "ipc_sends [] = []"
| "ipc_sends (IpcSend c p # es) = (c, p) # ipc_sends es"
| "ipc_sends (e # es) = ipc_sends es"

fun clipboard_writes :: "effect list \<Rightarrow> string list" where
  "clipboard_writes [] = []"
| "clipboard_writes (ClipboardWrite t # es) = t # clipboard_writes es"
| "clipboard_writes (e # es) = clipboard_writes es"

fun notifications :: "effect list \<Rightarrow> (notification_title \<times> notification_body) list" where
  "notifications [] = []"
| "notifications (ShowNotification t b s # es) = (t, b) # notifications es"
| "notifications (e # es) = notifications es"

fun backend_uploads :: "effect list \<Rightarrow> string list" where
  "backend_uploads [] = []"
| "backend_uploads (BackendUpload n file fileName d m # es) = file # backend_uploads es"
| "backend_uploads (e # es) = backend_uploads es"

text \<open>The records that a list of settled promises pushed, whether one was rejected, and the path a settled promise's record carries.\<close>

fun pushed_success :: "settled list \<Rightarrow> UploadedFileInfo list" where
  "pushed_success [] = []"
| "pushed_success (PushedSuccess r # ts) = r # pushed_success ts"
| "pushed_success (t # ts) = pushed_success ts"

fun pushed_fail :: "settled list \<Rightarrow> UploadedFileInfo list" where
  "pushed_fail [] = []"
| "pushed_fail (PushedFail r # ts) = r # pushed_fail ts"
| "pushed_fail (t # ts) = pushed_fail ts"

fun rejected :: "settled \<Rightarrow> bool" where
  "rejected (Rejected e) = True"
| "rejected t = False"

fun settled_path :: "settled \<Rightarrow> string" where
  "settled_path (Rejected e) = []"
| "settled_path (PushedSuccess r) = info_path r"
| "settled_path (PushedFail r) = info_path r"

section \<open>Sample inputs\<close>

text \<open>
  A backend that rejects the upload of \<open>/tmp/bad.png\<close>, reports a failure for
  \<open>/tmp/no.png\<close> and succeeds for every other file; it has no optional operation.
\<close>

definition sample_uploader :: Uploader where
  "sample_uploader =
     \<lparr> upload_call = (\<lambda>options file fileName directoryPath isFromFileManage.
          if file = ''/tmp/bad.png'' then Inl ''ECONNRESET''
          else if file = ''/tmp/no.png'' then Inr (FailResponse ''denied'')
          else Inr (SuccessResponse
                 \<lparr> data_name = None, data_url = Some ''https://x/y.png'', data_size = None \<rparr>)),
       getFileList_op = None,
       deleteFile_op = None,
       createDirectory_op = None \<rparr>"

definition sample_profile :: UploaderProfile where
  "sample_profile =
     \<lparr> profile_id = ''p1'', uploaderName = ''custom'', uploaderOptions = [], isDefault = True \<rparr>"

text \<open>
  A world with that one profile as the default, the raw link format and automatic copy
  without restoration. A profile named \<open>p2\<close> is stored too, for a backend the registry
  does not know.
\<close>

definition sample_world :: world where
  "sample_world =
     \<lparr> defaultUploaderProfileId = ''p1'',
       urlType = ''URL'',
       autoCopy = True,
       autoRecover = False,
       sound = True,
       showNotifaction = True,
       getAll = [sample_profile,
                 \<lparr> profile_id = ''p2'', uploaderName = ''gone'', uploaderOptions = [],
                   isDefault = False \<rparr>],
       getUploaderByName = (\<lambda>name. if name = ''custom'' then Some sample_uploader else None),
       history_add = (\<lambda>uploadedData. uploadedData),
       isDestroyed = False,
       readText = ''before'',
       extname = (\<lambda>file. ''.png''),
       mime_lookup = (\<lambda>file. Some ''image/png''),
       uuidv4 = (\<lambda>n. replicate (Suc n) (CHR ''u'')),
       getTime = (\<lambda>i. 1000 + i),
       picks = [] \<rparr>"

text \<open>
  A runtime for the templated uploader: a form of 200 bytes, a parser that knows the
  texts of a table and rejects every other, a transport that answers with a fixed body,
  and no property beyond own keys.
\<close>

definition parse_table :: "(string \<times> jsval) list \<Rightarrow> string \<Rightarrow> string + jsval" where
  "parse_table table s =
     (case map_of table s of None \<Rightarrow> Inl ''Unexpected token'' | Some v \<Rightarrow> Inr v)"

definition sample_runtime :: "jsval option \<Rightarrow> runtime" where
  "sample_runtime body =
     \<lparr> getLength = (\<lambda>formData. Inr 200),
       getHeaders = (\<lambda>formData. [''content-type'' \<mapsto> HStr ''multipart/form-data; boundary=b'']),
       JSON_parse = parse_table [(''{}'', JObj [])],
       axios = (\<lambda>request. Inr body),
       proto = (\<lambda>v k. None) \<rparr>"

definition sample_options :: "string \<Rightarrow> UploaderOptions" where
  "sample_options contentType =
     [(''url'', ''https://x/upload''), (''method'', ''POST''), (''contentType'', contentType),
      (''fileFieldName'', ''file''), (''responseUrlFieldName'', ''url''),
      (''requestBody'', ''{}'')]"

section \<open>Properties\<close>

subsection \<open>Auxiliary facts\<close>

lemma getConfig_sample:
  "getConfig (sample_options ct) ''contentType'' = Some ct"
  "getConfig (sample_options ct) ''requestBody'' = Some ''{}''"
  "getConfig (sample_options ct) ''requestParams'' = None"
  "getConfig (sample_options ct) ''fileFieldName'' = Some ''file''"
  "getConfig (sample_options ct) ''responseUrlFieldName'' = Some ''url''"
  by (simp_all add: getConfig_def sample_options_def)

lemma response_url_own_key:
  assumes "map_of body ''data'' = Some (JObj d)" and "config ''responseUrlFieldName'' = Some f"
    and "map_of d f = Some v"
  shows "response_url rt config (Some (JObj body)) = Some v"
  using assms by (simp add: response_url_def opt_member_def get_member_def)

lemma sample_request:
  "\<exists>request. build_request (sample_runtime body) (getConfig (sample_options ct)) filePath = Inr request"
  by (simp add: build_request_def getConfig_sample sample_runtime_def)

lemma sample_failing_request:
  "build_request (sample_runtime body)
     (getConfig (sample_options ct @ [(''requestParams'', ''?'')])) filePath = Inl ''Unexpected token''"
  by (simp add: build_request_def getConfig_def sample_options_def sample_runtime_def parse_table_def)

lemma mset_completion_order: "mset (completion_order ks ts) = mset ts"
proof (induction ks ts rule: completion_order.induct)
  case (3 k ks t ts)
  let ?xs = "t # ts"
  let ?i = "k mod length ?xs"
  have i: "?i < length ?xs" by simp
  have "?xs = take ?i ?xs @ ?xs ! ?i # drop (Suc ?i) ?xs"
    using i by (rule id_take_nth_drop)
  then have "mset ?xs = mset (take ?i ?xs @ ?xs ! ?i # drop (Suc ?i) ?xs)" by simp
  also have "\<dots> = add_mset (?xs ! ?i) (mset (take ?i ?xs @ drop (Suc ?i) ?xs))" by simp
  finally show ?case using 3 by simp
qed simp_all

lemma set_completion_order: "set (completion_order ks ts) = set ts"
  using mset_completion_order [of ks ts] by (rule mset_eq_setD)

lemma length_completion_order: "length (completion_order ks ts) = length ts"
  using mset_completion_order [of ks ts] by (rule mset_eq_length)

lemma completion_order_any:
  "mset ys = mset xs \<Longrightarrow> \<exists>ks. completion_order ks xs = ys"
proof (induction ys arbitrary: xs)
  case Nil
  then show ?case by simp
next
  case (Cons y ys)
  then have "y \<in> set xs" by (metis list.set_intros(1) mset_eq_setD)
  then obtain i where i: "i < length xs" "xs ! i = y" by (auto simp: in_set_conv_nth)
  let ?rest = "take i xs @ drop (Suc i) xs"
  have "xs = take i xs @ y # drop (Suc i) xs" using i id_take_nth_drop by blast
  then have "mset xs = add_mset y (mset ?rest)" by (metis mset.simps(2) mset_append union_mset_add_mset_right)
  with Cons.prems have "mset ys = mset ?rest" by simp
  from Cons.IH [OF this] obtain ks where ks: "completion_order ks ?rest = ys" by blast
  obtain t ts where xs: "xs = t # ts" using i by (cases xs) auto
  have "completion_order (i # ks) xs = y # ys"
    using i ks unfolding xs by simp
  then show ?case by blast
qed

lemma gather_fulfilled:
  "\<forall>t\<in>set ts. \<not> rejected t \<Longrightarrow>
   gather ts s f = Inr (s @ pushed_success ts, f @ pushed_fail ts)"
  by (induction ts s f rule: gather.induct) auto

lemma gather_rejected:
  "\<exists>t\<in>set ts. rejected t \<Longrightarrow> \<exists>e. Rejected e \<in> set ts \<and> gather ts s f = Inl e"
  by (induction ts s f rule: gather.induct) auto

lemma length_pushed:
  "\<forall>t\<in>set ts. \<not> rejected t \<Longrightarrow> length (pushed_success ts) + length (pushed_fail ts) = length ts"
  by (induction ts rule: pushed_success.induct) auto


lemma mset_pushed_paths:
  "\<forall>t\<in>set ts. \<not> rejected t \<Longrightarrow>
   mset (map info_path (pushed_fail ts @ pushed_success ts)) = mset (map settled_path ts)"
  by (induction ts rule: pushed_success.induct) auto

lemma rejected_file_task:
  "rejected (file_task w p u d m x) = isl (backend_result w p u d m x)"
  by (auto simp: file_task_def split: sum.splits upload_response.splits)

lemma file_task_Rejected:
  "file_task w p u d m x = Rejected e \<longleftrightarrow> (\<exists>msg. e = Thrown msg \<and> backend_result w p u d m x = Inl msg)"
  by (auto simp: file_task_def split: sum.splits upload_response.splits)

lemma settled_path_file_task:
  "\<not> isl (backend_result w p u d m (i, file)) \<Longrightarrow> settled_path (file_task w p u d m (i, file)) = file"
  by (auto simp: file_task_def baseInfo_def spread_data_def split: sum.splits upload_response.splits)

lemma aggregate_fulfilled:
  assumes "\<forall>x\<in>set (enumerate 0 files). \<not> isl (backend_result w p u d m x)"
  shows "\<exists>s f. aggregate w p u files d m = Inr (s, f)
           \<and> length s + length f = length files
           \<and> mset (map info_path (f @ s)) = mset files"
proof -
  let ?tasks = "map (file_task w p u d m) (enumerate 0 files)"
  let ?ts = "completion_order (picks w) ?tasks"
  have nr: "\<forall>t\<in>set ?ts. \<not> rejected t"
    using assms by (auto simp: set_completion_order rejected_file_task)
  have agg: "aggregate w p u files d m = Inr (pushed_success ?ts, pushed_fail ?ts)"
    using gather_fulfilled [OF nr, of "[]" "[]"] by (simp add: aggregate_def)
  have len: "length (pushed_success ?ts) + length (pushed_fail ?ts) = length files"
    using length_pushed [OF nr] by (simp add: length_completion_order)
  have "settled_path (file_task w p u d m x) = snd x" if "x \<in> set (enumerate 0 files)" for x
    using that assms settled_path_file_task [of w p u d m "fst x" "snd x"] by simp
  then have "map (\<lambda>x. settled_path (file_task w p u d m x)) (enumerate 0 files)
               = map snd (enumerate 0 files)"
    by (intro map_cong refl)
  moreover have "map settled_path ?tasks
               = map (\<lambda>x. settled_path (file_task w p u d m x)) (enumerate 0 files)"
    by (simp add: o_def)
  moreover have "map snd (enumerate 0 files) = files"
    by simp
  ultimately have paths: "map settled_path ?tasks = files"
    by (simp only:)
  have "mset (map info_path (pushed_fail ?ts @ pushed_success ?ts)) = mset (map settled_path ?ts)"
    using nr by (rule mset_pushed_paths)
  also have "\<dots> = image_mset settled_path (mset ?ts)"
    by (rule mset_map)
  also have "\<dots> = image_mset settled_path (mset ?tasks)"
    by (simp only: mset_completion_order)
  also have "\<dots> = mset (map settled_path ?tasks)"
    by (rule mset_map [symmetric])
  also have "\<dots> = mset files"
    by (simp only: paths)
  finally show ?thesis using agg len by blast
qed

lemma aggregate_rejected:
  assumes "\<exists>x\<in>set (enumerate 0 files). isl (backend_result w p u d m x)"
  shows "\<exists>x\<in>set (enumerate 0 files). \<exists>msg. backend_result w p u d m x = Inl msg
           \<and> aggregate w p u files d m = Inl (Thrown msg)"
proof -
  let ?tasks = "map (file_task w p u d m) (enumerate 0 files)"
  let ?ts = "completion_order (picks w) ?tasks"
  have "\<exists>t\<in>set ?ts. rejected t"
    using assms by (auto simp: set_completion_order rejected_file_task)
  from gather_rejected [OF this, of "[]" "[]"]
  obtain e where e: "Rejected e \<in> set ?ts" "aggregate w p u files d m = Inl e"
    by (auto simp: aggregate_def)
  from e(1) obtain x where x: "x \<in> set (enumerate 0 files)" "file_task w p u d m x = Rejected e"
    by (auto simp: set_completion_order)
  then obtain msg where "e = Thrown msg" "backend_result w p u d m x = Inl msg"
    by (auto simp: file_task_Rejected)
  with x e show ?thesis by blast
qed

lemma history_appends_append: "history_appends (xs @ ys) = history_appends xs @ history_appends ys"
  by (induction xs rule: history_appends.induct) auto

lemma history_appends_launch: "history_appends (launch w p files d m) = []"
proof -
  have "history_appends (map (\<lambda>x. case x of (i, file) \<Rightarrow>
              BackendUpload n file (fileName_of w i file) d m) xs) = []" for n xs
    by (induction xs) auto
  then show ?thesis by (simp add: launch_def)
qed

lemma history_appends_handleAddHistory: "history_appends (handleAddHistory w rs) = [rs]"
  by (simp add: handleAddHistory_def)

lemma history_appends_handleBatchUploaded: "history_appends (handleBatchUploaded a b) = []"
  by (simp add: handleBatchUploaded_def)

lemma history_appends_handleSingleUploaded:
  "history_appends (fst (handleSingleUploaded w a b)) = []"
  by (auto simp: handleSingleUploaded_def split: option.splits)

lemma history_appends_present: "history_appends (fst (present w files s f)) = []"
  using history_appends_handleSingleUploaded [of w "first_elem s" "first_elem f"]
  by (auto simp: present_def history_appends_handleBatchUploaded split: prod.splits sum.splits)

lemma present_ok:
  assumes "files \<noteq> []" "length s + length f = length files"
  shows "snd (present w files s f) = Inr ()"
proof (cases "length files > 1")
  case True
  then show ?thesis by (simp add: present_def)
next
  case False
  with assms have "s \<noteq> [] \<or> f \<noteq> []" by auto
  then have "first_elem s \<noteq> None \<or> first_elem f \<noteq> None"
    by (auto simp: first_elem_def split: list.splits)
  then have "\<not> isl (snd (handleSingleUploaded w (first_elem s) (first_elem f)))"
    by (auto simp: handleSingleUploaded_def split: option.splits)
  with False show ?thesis
    by (auto simp: present_def split: prod.splits sum.splits)
qed

lemma upload_aggregated:
  assumes "resolve_profile w cid = Some p" "getUploaderByName w (uploaderName p) = Some u"
    and "aggregate w p u files d m = Inr (s, f)"
  shows "fst (upload w files cid d m) =
           launch w p files d m @ handleAddHistory w (f @ s)
           @ (if m then [IpcSend ''file-upload-reply'' NoPayload] else [])
           @ fst (present w files s f)
           @ (case snd (present w files s f) of
                Inl err \<Rightarrow> [ShowNotification TitleUploadAbnormal (BodyErrorMessage err) False]
              | Inr _ \<Rightarrow> [])"
    and "snd (upload w files cid d m) = ReturnUndefined"
  using assms by (auto simp: upload_def upload_try_def split: prod.splits sum.splits)

lemma upload_rejected:
  assumes "resolve_profile w cid = Some p" "getUploaderByName w (uploaderName p) = Some u"
    and "aggregate w p u files d m = Inl err"
  shows "upload w files cid d m =
           (launch w p files d m @ [ShowNotification TitleUploadAbnormal (BodyErrorMessage err) False],
            ReturnUndefined)"
  using assms by (simp add: upload_def upload_try_def)

lemma backend_uploads_launch: "backend_uploads (launch w p files d m) = files"
proof -
  have "backend_uploads (map (\<lambda>x. case x of (i, file) \<Rightarrow>
              BackendUpload n file (fileName_of w i file) d m) (enumerate k xs)) = xs" for n k xs
    by (induction xs arbitrary: k) auto
  then show ?thesis by (simp add: launch_def)
qed

lemma history_appends_snoc_notification:
  "history_appends (es @ [ShowNotification t b s]) = history_appends es"
  by (simp add: history_appends_append)

lemma backend_uploads_snoc_notification:
  "backend_uploads (es @ [ShowNotification t b s]) = backend_uploads es"
  by (induction es rule: backend_uploads.induct) auto

lemma sample_resolve_default: "resolve_profile sample_world [] = Some sample_profile"
  by (simp add: resolve_profile_def sample_world_def sample_profile_def)

lemma sample_resolve_p1: "resolve_profile sample_world ''p1'' = Some sample_profile"
  by (simp add: resolve_profile_def sample_world_def sample_profile_def)

lemma sample_registry: "getUploaderByName sample_world (uploaderName sample_profile) = Some sample_uploader"
  by (simp add: sample_world_def sample_profile_def)

lemma sample_world_fields:
  "picks sample_world = []"
  "isDestroyed sample_world = False"
  "history_add sample_world rs = rs"
  "urlType sample_world = ''URL''"
  "autoCopy sample_world = True"
  "autoRecover sample_world = False"
  "sound sample_world = True"
  "showNotifaction sample_world = True"
  "extname sample_world file = ''.png''"
  "mime_lookup sample_world file = Some ''image/png''"
  "uuidv4 sample_world n = replicate (Suc n) (CHR ''u'')"
  "getTime sample_world i = 1000 + i"
  by (simp_all add: sample_world_def)

lemma sample_backend_result:
  "backend_result sample_world sample_profile sample_uploader d m (i, file) =
     (if file = ''/tmp/bad.png'' then Inl ''ECONNRESET''
      else if file = ''/tmp/no.png'' then Inr (FailResponse ''denied'')
      else Inr (SuccessResponse
             \<lparr> data_name = None, data_url = Some ''https://x/y.png'', data_size = None \<rparr>))"
  by (simp add: backend_result_def sample_uploader_def)

lemma sample_resolve_none: "resolve_profile sample_world ''nope'' = None"
  by (simp add: resolve_profile_def sample_world_def sample_profile_def)

lemma sample_aggregate_ok:
  "aggregate sample_world sample_profile sample_uploader [''/tmp/ok.png''] d m =
     Inr ([spread_data (baseInfo sample_world sample_profile (0, ''/tmp/ok.png''))
             \<lparr> data_name = None, data_url = Some ''https://x/y.png'', data_size = None \<rparr>], [])"
  by (simp add: aggregate_def file_task_def sample_backend_result sample_world_fields)

lemma sample_getUploader:
  "getUploader sample_world ''nope'' = ([], None)"
  "getUploader sample_world ''p2'' = ([], None)"
  "getUploader sample_world ''p1'' = ([ChangeOptions ''custom'' []], Some (sample_profile, sample_uploader))"
  by (simp_all add: getUploader_def sample_world_def sample_profile_def)

subsection \<open>The orchestrator\<close>

text \<open>
  Claim C1, as the code has it. When the profile and the backend resolve and the backend
  raises for at least one file of the batch, the error is not turned into a failure
  record of that file: the only handler is the one around the whole batch. Every file's
  upload has been invoked by then, nothing is appended to the history, one notification
  carries the message of one of the errors raised, and the call returns normally.
\<close>

theorem upload_backend_error_reported_once:
  assumes "resolve_profile w customUploaderProfileId = Some p"
    and "getUploaderByName w (uploaderName p) = Some u"
    and "\<exists>x\<in>set (enumerate 0 files). isl (backend_result w p u directoryPath isFromFileManage x)"
  shows "\<exists>x\<in>set (enumerate 0 files). \<exists>msg.
           backend_result w p u directoryPath isFromFileManage x = Inl msg
         \<and> upload w files customUploaderProfileId directoryPath isFromFileManage =
             (launch w p files directoryPath isFromFileManage
              @ [ShowNotification TitleUploadAbnormal (BodyErrorMessage (Thrown msg)) False],
              ReturnUndefined)
         \<and> backend_uploads (fst (upload w files customUploaderProfileId directoryPath isFromFileManage))
             = files
         \<and> history_appends (fst (upload w files customUploaderProfileId directoryPath isFromFileManage))
             = []"
proof -
  from aggregate_rejected [OF assms(3)]
  obtain x msg where x: "x \<in> set (enumerate 0 files)"
    and msg: "backend_result w p u directoryPath isFromFileManage x = Inl msg"
    and agg: "aggregate w p u files directoryPath isFromFileManage = Inl (Thrown msg)"
    by blast
  have up: "upload w files customUploaderProfileId directoryPath isFromFileManage =
             (launch w p files directoryPath isFromFileManage
              @ [ShowNotification TitleUploadAbnormal (BodyErrorMessage (Thrown msg)) False],
              ReturnUndefined)"
    using assms(1,2) agg by (rule upload_rejected)
  have "backend_uploads (fst (upload w files customUploaderProfileId directoryPath isFromFileManage))
          = files"
    by (simp add: up backend_uploads_snoc_notification backend_uploads_launch)
  moreover have "history_appends (fst (upload w files customUploaderProfileId directoryPath isFromFileManage))
          = []"
    by (simp add: up history_appends_snoc_notification history_appends_launch)
  ultimately show ?thesis using x msg up by blast
qed

theorem upload_backend_error_reported_once_witness:
  "\<exists>msg. upload sample_world [''/tmp/ok.png'', ''/tmp/bad.png''] [] None False =
     (launch sample_world sample_profile [''/tmp/ok.png'', ''/tmp/bad.png''] None False
      @ [ShowNotification TitleUploadAbnormal (BodyErrorMessage (Thrown msg)) False],
      ReturnUndefined)"
proof -
  have "\<exists>x\<in>set (enumerate 0 [''/tmp/ok.png'', ''/tmp/bad.png'']).
          isl (backend_result sample_world sample_profile sample_uploader None False x)"
    by (simp add: sample_backend_result)
  from upload_backend_error_reported_once [OF sample_resolve_default sample_registry this]
  show ?thesis by blast
qed

theorem upload_per_file_catch_counterexample:
  "upload sample_world [''/tmp/bad.png'', ''/tmp/ok.png''] [] None False =
     ([ChangeOptions ''custom'' [],
       BackendUpload ''custom'' ''/tmp/bad.png'' ''u.png'' None False,
       BackendUpload ''custom'' ''/tmp/ok.png'' ''uuu.png'' None False,
       ShowNotification TitleUploadAbnormal (BodyErrorMessage (Thrown ''ECONNRESET'')) False],
      ReturnUndefined)"
proof -
  have agg: "aggregate sample_world sample_profile sample_uploader [''/tmp/bad.png'', ''/tmp/ok.png''] None False
          = Inl (Thrown ''ECONNRESET'')"
    by (simp add: aggregate_def file_task_def sample_backend_result sample_world_fields)
  show ?thesis
    unfolding upload_rejected [OF sample_resolve_default sample_registry agg]
    by (simp add: launch_def sample_profile_def fileName_of_def sample_world_fields eval_nat_numeral)
qed

text \<open>
  Claim C2. When the profile and the backend resolve and no upload of a non-empty
  batch raises, the two partitions together have as many records as there are files,
  and the call appends to the history exactly once: the failures followed by the
  successes, one record per input file, each carrying the path of its file.
\<close>

theorem batch_one_record_per_file:
  assumes "resolve_profile w customUploaderProfileId = Some p"
    and "getUploaderByName w (uploaderName p) = Some u"
    and "files \<noteq> []"
    and "\<forall>x\<in>set (enumerate 0 files). \<not> isl (backend_result w p u directoryPath isFromFileManage x)"
  shows "\<exists>successRes failRes.
           aggregate w p u files directoryPath isFromFileManage = Inr (successRes, failRes)
         \<and> length successRes + length failRes = length files
         \<and> history_appends (fst (upload w files customUploaderProfileId directoryPath isFromFileManage))
             = [failRes @ successRes]
         \<and> length (failRes @ successRes) = length files
         \<and> mset (map info_path (failRes @ successRes)) = mset files"
proof -
  from aggregate_fulfilled [OF assms(4)]
  obtain s f where agg: "aggregate w p u files directoryPath isFromFileManage = Inr (s, f)"
    and len: "length s + length f = length files"
    and paths: "mset (map info_path (f @ s)) = mset files"
    by blast
  have ok: "snd (present w files s f) = Inr ()"
    using assms(3) len by (rule present_ok)
  have "history_appends (fst (upload w files customUploaderProfileId directoryPath isFromFileManage))
          = [f @ s]"
    by (simp add: upload_aggregated(1) [OF assms(1,2) agg] ok history_appends_append
        history_appends_launch history_appends_handleAddHistory history_appends_present)
  with agg len paths show ?thesis by auto
qed

theorem batch_one_record_per_file_witness:
  "\<exists>successRes failRes.
     aggregate sample_world sample_profile sample_uploader [''/tmp/no.png'', ''/tmp/ok.png''] None False
       = Inr (successRes, failRes)
   \<and> length successRes + length failRes = 2
   \<and> history_appends (fst (upload sample_world [''/tmp/no.png'', ''/tmp/ok.png''] [] None False))
       = [failRes @ successRes]
   \<and> mset (map info_path (failRes @ successRes)) = mset [''/tmp/no.png'', ''/tmp/ok.png'']"
proof -
  have ne: "[''/tmp/no.png'', ''/tmp/ok.png''] \<noteq> []" by simp
  have "\<forall>x\<in>set (enumerate 0 [''/tmp/no.png'', ''/tmp/ok.png'']).
          \<not> isl (backend_result sample_world sample_profile sample_uploader None False x)"
    by (simp add: sample_backend_result)
  from batch_one_record_per_file [OF sample_resolve_default sample_registry ne this]
  show ?thesis by auto
qed

text \<open>
  Claim C3, as the code has it. A managed-mode call whose profile and backend resolve
  and whose uploads, at least one, all settle without raising sends
  \<open>file-upload-reply\<close> to the window once, right after the history append, and then
  presents the result as any other call does: the batch summary for more than one
  file, the single-file presentation (with its clipboard write and notification)
  otherwise. The presentation does not depend on the managed-mode flag.
\<close>

theorem managed_upload_presents_result:
  assumes "resolve_profile w customUploaderProfileId = Some p"
    and "getUploaderByName w (uploaderName p) = Some u"
    and "files \<noteq> []"
    and "\<forall>x\<in>set (enumerate 0 files). \<not> isl (backend_result w p u directoryPath True x)"
  shows "\<exists>successRes failRes.
           aggregate w p u files directoryPath True = Inr (successRes, failRes)
         \<and> upload w files customUploaderProfileId directoryPath True =
             (launch w p files directoryPath True
              @ handleAddHistory w (failRes @ successRes)
              @ [IpcSend ''file-upload-reply'' NoPayload]
              @ fst (present w files successRes failRes),
              ReturnUndefined)
         \<and> fst (present w files successRes failRes) =
             (if length files > 1
              then handleBatchUploaded (length successRes) (length failRes)
              else fst (handleSingleUploaded w (first_elem successRes) (first_elem failRes)))"
proof -
  from aggregate_fulfilled [OF assms(4)]
  obtain s f where agg: "aggregate w p u files directoryPath True = Inr (s, f)"
    and len: "length s + length f = length files"
    by blast
  have ok: "snd (present w files s f) = Inr ()"
    using assms(3) len by (rule present_ok)
  have "upload w files customUploaderProfileId directoryPath True =
             (launch w p files directoryPath True
              @ handleAddHistory w (f @ s)
              @ [IpcSend ''file-upload-reply'' NoPayload]
              @ fst (present w files s f),
              ReturnUndefined)"
    using upload_aggregated [OF assms(1,2) agg] ok
    by (simp add: prod_eq_iff)
  moreover have "fst (present w files s f) =
             (if length files > 1
              then handleBatchUploaded (length s) (length f)
              else fst (handleSingleUploaded w (first_elem s) (first_elem f)))"
    by (auto simp: present_def split: prod.splits sum.splits)
  ultimately show ?thesis using agg by blast
qed

theorem managed_upload_presents_result_witness:
  "\<exists>successRes failRes.
     upload sample_world [''/tmp/ok.png'', ''/tmp/no.png''] ''p1'' None True =
       (launch sample_world sample_profile [''/tmp/ok.png'', ''/tmp/no.png''] None True
        @ handleAddHistory sample_world (failRes @ successRes)
        @ [IpcSend ''file-upload-reply'' NoPayload]
        @ handleBatchUploaded (length successRes) (length failRes),
        ReturnUndefined)"
proof -
  have ne: "[''/tmp/ok.png'', ''/tmp/no.png''] \<noteq> []" by simp
  have "\<forall>x\<in>set (enumerate 0 [''/tmp/ok.png'', ''/tmp/no.png'']).
          \<not> isl (backend_result sample_world sample_profile sample_uploader None True x)"
    by (simp add: sample_backend_result)
  from managed_upload_presents_result [OF sample_resolve_p1 sample_registry ne this]
  obtain s f where
    "upload sample_world [''/tmp/ok.png'', ''/tmp/no.png''] ''p1'' None True =
       (launch sample_world sample_profile [''/tmp/ok.png'', ''/tmp/no.png''] None True
        @ handleAddHistory sample_world (f @ s)
        @ [IpcSend ''file-upload-reply'' NoPayload]
        @ handleBatchUploaded (length s) (length f),
        ReturnUndefined)"
    by auto
  then show ?thesis by blast
qed

theorem managed_upload_silent_counterexample:
  "clipboard_writes (fst (upload sample_world [''/tmp/ok.png''] ''p1'' None True)) = [''https://x/y.png'']
   \<and> notifications (fst (upload sample_world [''/tmp/ok.png''] ''p1'' None True))
       = [(TitleUploadSucceeded, BodyLinkCopied)]
   \<and> (''file-upload-reply'', NoPayload)
       \<in> set (ipc_sends (fst (upload sample_world [''/tmp/ok.png''] ''p1'' None True)))"
  by (simp add: upload_aggregated(1) [OF sample_resolve_p1 sample_registry sample_aggregate_ok]
      launch_def handleAddHistory_def present_def first_elem_def handleSingleUploaded_def
      format_url_def or_empty_def spread_data_def baseInfo_def sample_world_fields)

text \<open>
  Claim C4. When no stored profile matches the effective id, the call shows exactly one
  notification and returns \<open>false\<close>: its body says that the profile does not exist
  when an explicit id was given, asks to configure the default uploader when profiles
  exist, and asks to add a profile when there is none; the three bodies differ. Nothing
  is appended to the history and no backend upload is invoked.
\<close>

theorem unresolved_profile_reported:
  assumes "resolve_profile w customUploaderProfileId = None"
  shows "upload w files customUploaderProfileId directoryPath isFromFileManage =
           ([ShowNotification TitleUploadAbnormal
               (if customUploaderProfileId \<noteq> [] then BodyProfileNotExist
                else if getAll w \<noteq> [] then BodySetDefaultUploader
                else BodyAddUploaderProfile)
               False],
            ReturnFalse)
       \<and> history_appends (fst (upload w files customUploaderProfileId directoryPath isFromFileManage)) = []
       \<and> backend_uploads (fst (upload w files customUploaderProfileId directoryPath isFromFileManage)) = []
       \<and> length (notifications (fst (upload w files customUploaderProfileId directoryPath isFromFileManage))) = 1
       \<and> BodyProfileNotExist \<noteq> BodySetDefaultUploader
       \<and> BodyProfileNotExist \<noteq> BodyAddUploaderProfile
       \<and> BodySetDefaultUploader \<noteq> BodyAddUploaderProfile"
  using assms by (simp add: upload_def upload_try_def)

theorem unresolved_profile_reported_witness:
  "upload sample_world [''/tmp/ok.png''] ''nope'' None False =
     ([ShowNotification TitleUploadAbnormal BodyProfileNotExist False], ReturnFalse)
   \<and> upload (sample_world \<lparr> defaultUploaderProfileId := [] \<rparr>) [''/tmp/ok.png''] [] None False =
     ([ShowNotification TitleUploadAbnormal BodySetDefaultUploader False], ReturnFalse)
   \<and> upload (sample_world \<lparr> getAll := [] \<rparr>) [''/tmp/ok.png''] [] None False =
     ([ShowNotification TitleUploadAbnormal BodyAddUploaderProfile False], ReturnFalse)"
proof -
  have r2: "resolve_profile (sample_world \<lparr> defaultUploaderProfileId := [] \<rparr>) [] = None"
    by (simp add: resolve_profile_def sample_world_def sample_profile_def)
  have r3: "resolve_profile (sample_world \<lparr> getAll := [] \<rparr>) [] = None"
    by (simp add: resolve_profile_def)
  have g2: "getAll (sample_world \<lparr> defaultUploaderProfileId := [] \<rparr>) \<noteq> []"
    by (simp add: sample_world_def)
  from unresolved_profile_reported [OF sample_resolve_none, of "[''/tmp/ok.png'']" None False]
  have "upload sample_world [''/tmp/ok.png''] ''nope'' None False =
     ([ShowNotification TitleUploadAbnormal BodyProfileNotExist False], ReturnFalse)"
    by simp
  moreover from unresolved_profile_reported [OF r2, of "[''/tmp/ok.png'']" None False] g2
  have "upload (sample_world \<lparr> defaultUploaderProfileId := [] \<rparr>) [''/tmp/ok.png''] [] None False =
     ([ShowNotification TitleUploadAbnormal BodySetDefaultUploader False], ReturnFalse)"
    by simp
  moreover from unresolved_profile_reported [OF r3, of "[''/tmp/ok.png'']" None False]
  have "upload (sample_world \<lparr> getAll := [] \<rparr>) [''/tmp/ok.png''] [] None False =
     ([ShowNotification TitleUploadAbnormal BodyAddUploaderProfile False], ReturnFalse)"
    by simp
  ultimately show ?thesis by simp
qed

text \<open>
  Claim C7, at the code. For an empty list of files whose profile and backend resolve,
  the single-file presentation is called with two missing records and reads
  \<open>errorMessage\<close> of \<open>undefined\<close>; the error raised is caught by the handler of
  the batch, which shows a notification with its message after the history append.
\<close>

theorem empty_batch_raises:
  assumes "resolve_profile w customUploaderProfileId = Some p"
    and "getUploaderByName w (uploaderName p) = Some u"
  shows "upload w [] customUploaderProfileId directoryPath isFromFileManage =
           (ChangeOptions (uploaderName p) (uploaderOptions p)
            # handleAddHistory w []
            @ (if isFromFileManage then [IpcSend ''file-upload-reply'' NoPayload] else [])
            @ [ShowNotification TitleUploadAbnormal
                 (BodyErrorMessage (UndefinedProperty ''errorMessage'')) False],
            ReturnUndefined)"
  using assms
  by (simp add: upload_def upload_try_def aggregate_def launch_def present_def first_elem_def
      handleSingleUploaded_def)

theorem empty_batch_raises_witness:
  "notifications (fst (upload sample_world [] [] None False)) =
     [(TitleUploadAbnormal, BodyErrorMessage (UndefinedProperty ''errorMessage''))]"
  using empty_batch_raises [OF sample_resolve_default sample_registry, of "None" False]
  by (simp add: handleAddHistory_def sample_world_fields)

text \<open>
  Claim C8. With a success record and a link format other than \<open>URL\<close>, \<open>HTML\<close>
  and \<open>Markdown\<close>, \<open>handleSingleUploaded\<close> returns the raw URL of the record and
  has no effect at all: no clipboard write, no notification.
\<close>

theorem unrecognised_urlType_returns_raw_url:
  assumes "urlType w \<notin> {''URL'', ''HTML'', ''Markdown''}"
  shows "handleSingleUploaded w (Some successFile) failFile = ([], Inr (info_url successFile))"
  using assms by (simp add: handleSingleUploaded_def format_url_def)

theorem unrecognised_urlType_returns_raw_url_witness:
  "handleSingleUploaded (sample_world \<lparr> urlType := ''BBCode'' \<rparr>)
     (Some (baseInfo sample_world sample_profile (0, ''/tmp/ok.png'')
              \<lparr> info_url := Some ''https://x/y.png'' \<rparr>))
     None
   = ([], Inr (Some ''https://x/y.png''))"
proof -
  have "urlType (sample_world \<lparr> urlType := ''BBCode'' \<rparr>) \<notin> {''URL'', ''HTML'', ''Markdown''}"
    by simp
  from unrecognised_urlType_returns_raw_url [OF this] show ?thesis by simp
qed

text \<open>
  Claim C10. For the three file-management calls, a profile id that matches no stored
  profile, or a matched profile whose backend the registry does not know, gives one
  reply and nothing else, with no error: the empty list for \<open>getFileList\<close>, false
  for \<open>deleteFile\<close> and \<open>createDirectory\<close>. A resolved backend that lacks the
  operation sends the same reply.
\<close>

theorem unresolved_backend_same_as_absent_capability:
  "(find (\<lambda>uploaderProfile. profile_id uploaderProfile = ident) (getAll w) = None
    \<or> (\<exists>p. find (\<lambda>uploaderProfile. profile_id uploaderProfile = ident) (getAll w) = Some p
           \<and> getUploaderByName w (uploaderName p) = None)
    \<longrightarrow> getFileList w ident directoryPath
          = ([IpcSend ''file-list-get-reply'' (PayloadValue (JArr []))], Inr ())
      \<and> deleteFile w ident fileNames
          = ([IpcSend ''file-delete-reply'' (PayloadValue (JBool False))], Inr ())
      \<and> createDirectory w ident newDirectory
          = ([IpcSend ''directory-create-reply'' (PayloadValue (JBool False))], Inr ()))
 \<and> (\<forall>es p u. getUploader w ident = (es, Some (p, u)) \<longrightarrow>
      (getFileList_op u = None \<longrightarrow>
         ipc_sends (fst (getFileList w ident directoryPath))
           = [(''file-list-get-reply'', PayloadValue (JArr []))]
       \<and> snd (getFileList w ident directoryPath) = Inr ())
    \<and> (deleteFile_op u = None \<longrightarrow>
         ipc_sends (fst (deleteFile w ident fileNames))
           = [(''file-delete-reply'', PayloadValue (JBool False))]
       \<and> snd (deleteFile w ident fileNames) = Inr ())
    \<and> (createDirectory_op u = None \<longrightarrow>
         ipc_sends (fst (createDirectory w ident newDirectory))
           = [(''directory-create-reply'', PayloadValue (JBool False))]
       \<and> snd (createDirectory w ident newDirectory) = Inr ()))"
  by (auto simp: getFileList_def deleteFile_def createDirectory_def getUploader_def
      split: option.splits)

theorem unresolved_backend_same_as_absent_capability_witness:
  "getFileList sample_world ''nope'' None
     = ([IpcSend ''file-list-get-reply'' (PayloadValue (JArr []))], Inr ())
   \<and> deleteFile sample_world ''p2'' [''a.png'']
     = ([IpcSend ''file-delete-reply'' (PayloadValue (JBool False))], Inr ())
   \<and> ipc_sends (fst (createDirectory sample_world ''p1'' ''dir''))
     = [(''directory-create-reply'', PayloadValue (JBool False))]"
proof -
  have f1: "find (\<lambda>uploaderProfile. profile_id uploaderProfile = ''nope'') (getAll sample_world) = None"
    by (simp add: sample_world_def sample_profile_def)
  have f2: "\<exists>p. find (\<lambda>uploaderProfile. profile_id uploaderProfile = ''p2'') (getAll sample_world) = Some p
              \<and> getUploaderByName sample_world (uploaderName p) = None"
    by (simp add: sample_world_def sample_profile_def)
  have c: "createDirectory_op sample_uploader = None"
    by (simp add: sample_uploader_def)
  from unresolved_backend_same_as_absent_capability [of "''nope''" sample_world None] f1
  have "getFileList sample_world ''nope'' None
     = ([IpcSend ''file-list-get-reply'' (PayloadValue (JArr []))], Inr ())"
    by blast
  moreover
  from unresolved_backend_same_as_absent_capability [of "''p2''" sample_world _ "[''a.png'']"] f2
  have "deleteFile sample_world ''p2'' [''a.png'']
     = ([IpcSend ''file-delete-reply'' (PayloadValue (JBool False))], Inr ())"
    by blast
  moreover
  from unresolved_backend_same_as_absent_capability [of "''p1''" sample_world _ _ "''dir''"]
    sample_getUploader(3) c
  have "ipc_sends (fst (createDirectory sample_world ''p1'' ''dir''))
     = [(''directory-create-reply'', PayloadValue (JBool False))]"
    by blast
  ultimately show ?thesis by simp
qed

subsection \<open>The templated HTTP uploader\<close>

text \<open>
  Claim C5, as the code has it. An error raised while the request is built or sent
  becomes a failure carrying its message. Otherwise the value found at
  \<open>data.<responseUrlFieldName>\<close> decides: nothing there, or a falsy value (null,
  false, zero, the empty text), gives the generic failure; a truthy value gives a success
  carrying it. An own key of the decoded \<open>data\<close> object is what the lookup finds.
\<close>

theorem custom_upload_outcome:
  "(\<forall>m. build_request rt (getConfig options) filePath = Inl m \<longrightarrow>
      custom_upload rt options filePath fileName = CustomFailMessage m)
 \<and> (\<forall>request m. build_request rt (getConfig options) filePath = Inr request
        \<and> axios rt request = Inl m \<longrightarrow>
      custom_upload rt options filePath fileName = CustomFailMessage m)
 \<and> (\<forall>request res. build_request rt (getConfig options) filePath = Inr request
        \<and> axios rt request = Inr res \<longrightarrow>
      (response_url rt (getConfig options) res = None \<longrightarrow>
         custom_upload rt options filePath fileName = CustomFailGeneric)
    \<and> (\<forall>v. response_url rt (getConfig options) res = Some v \<and> \<not> truthy v \<longrightarrow>
         custom_upload rt options filePath fileName = CustomFailGeneric)
    \<and> (\<forall>v. response_url rt (getConfig options) res = Some v \<and> truthy v \<longrightarrow>
         custom_upload rt options filePath fileName = CustomSuccess v)
    \<and> (\<forall>body d f v. res = Some (JObj body) \<and> map_of body ''data'' = Some (JObj d)
           \<and> getConfig options ''responseUrlFieldName'' = Some f \<and> map_of d f = Some v \<longrightarrow>
         response_url rt (getConfig options) res = Some v))"
  by (auto simp: custom_upload_def Let_def response_url_own_key)

theorem custom_upload_outcome_witness:
  "custom_upload (sample_runtime (Some (JObj [(''data'', JObj [(''url'', JStr ''https://x/y.png'')])])))
     (sample_options ''multipart/form-data'') ''/tmp/a.png'' ''a.png''
     = CustomSuccess (JStr ''https://x/y.png'')
   \<and> custom_upload (sample_runtime (Some (JObj [(''data'', JObj [])])))
     (sample_options ''multipart/form-data'') ''/tmp/a.png'' ''a.png'' = CustomFailGeneric
   \<and> custom_upload (sample_runtime (Some (JObj [(''data'', JObj [(''url'', JNull)])])))
     (sample_options ''multipart/form-data'') ''/tmp/a.png'' ''a.png'' = CustomFailGeneric
   \<and> custom_upload (sample_runtime None)
     (sample_options ''multipart/form-data'' @ [(''requestParams'', ''?'')]) ''/tmp/a.png'' ''a.png''
     = CustomFailMessage ''Unexpected token''"
proof -
  let ?opts = "sample_options ''multipart/form-data''"
  let ?b1 = "[(''data'', JObj [(''url'', JStr ''https://x/y.png'')])]"
  let ?b2 = "[(''data'', JObj [])]"
  let ?b3 = "[(''data'', JObj [(''url'', JNull)])]"
  obtain r1 where r1: "build_request (sample_runtime (Some (JObj ?b1))) (getConfig ?opts) ''/tmp/a.png'' = Inr r1"
    using sample_request by blast
  obtain r2 where r2: "build_request (sample_runtime (Some (JObj ?b2))) (getConfig ?opts) ''/tmp/a.png'' = Inr r2"
    using sample_request by blast
  obtain r3 where r3: "build_request (sample_runtime (Some (JObj ?b3))) (getConfig ?opts) ''/tmp/a.png'' = Inr r3"
    using sample_request by blast
  have ax: "axios (sample_runtime body) r = Inr body" for body r
    by (simp add: sample_runtime_def)
  have u1: "response_url (sample_runtime (Some (JObj ?b1))) (getConfig ?opts) (Some (JObj ?b1))
              = Some (JStr ''https://x/y.png'')"
    by (simp add: response_url_def opt_member_def get_member_def getConfig_sample)
  have u2: "response_url (sample_runtime (Some (JObj ?b2))) (getConfig ?opts) (Some (JObj ?b2)) = None"
    by (simp add: response_url_def opt_member_def get_member_def getConfig_sample sample_runtime_def)
  have u3: "response_url (sample_runtime (Some (JObj ?b3))) (getConfig ?opts) (Some (JObj ?b3)) = Some JNull"
    by (simp add: response_url_def opt_member_def get_member_def getConfig_sample)
  have t: "truthy (JStr ''https://x/y.png'')" "\<not> truthy JNull" by simp_all
  from custom_upload_outcome [of "sample_runtime (Some (JObj ?b1))" ?opts "''/tmp/a.png''" "''a.png''"]
    r1 ax u1 t
  have "custom_upload (sample_runtime (Some (JObj ?b1))) ?opts ''/tmp/a.png'' ''a.png''
          = CustomSuccess (JStr ''https://x/y.png'')"
    by blast
  moreover
  from custom_upload_outcome [of "sample_runtime (Some (JObj ?b2))" ?opts "''/tmp/a.png''" "''a.png''"]
    r2 ax u2
  have "custom_upload (sample_runtime (Some (JObj ?b2))) ?opts ''/tmp/a.png'' ''a.png'' = CustomFailGeneric"
    by blast
  moreover
  from custom_upload_outcome [of "sample_runtime (Some (JObj ?b3))" ?opts "''/tmp/a.png''" "''a.png''"]
    r3 ax u3 t
  have "custom_upload (sample_runtime (Some (JObj ?b3))) ?opts ''/tmp/a.png'' ''a.png'' = CustomFailGeneric"
    by blast
  moreover
  from custom_upload_outcome [of "sample_runtime None" "?opts @ [(''requestParams'', ''?'')]"
      "''/tmp/a.png''" "''a.png''"] sample_failing_request
  have "custom_upload (sample_runtime None) (?opts @ [(''requestParams'', ''?'')]) ''/tmp/a.png'' ''a.png''
          = CustomFailMessage ''Unexpected token''"
    by blast
  ultimately show ?thesis by simp
qed

theorem present_falsy_field_counterexample:
  "custom_upload (sample_runtime (Some (JObj [(''data'', JObj [(''url'', JStr [])])])))
     (sample_options ''multipart/form-data'') ''/tmp/a.png'' ''a.png'' = CustomFailGeneric
   \<and> map_of [(''url'', JStr [])] ''url'' = Some (JStr [])"
  by (simp add: custom_upload_def build_request_def getConfig_sample sample_runtime_def
      response_url_def opt_member_def get_member_def)

text \<open>
  Claim C6, as the code has it. For the content type \<open>multipart/form-data\<close> the
  body of the request is the form holding the file under the configured field name, and
  the \<open>Content-Length\<close> header is the length the form library computed for that
  form. For every other content type the body is the configured \<open>requestBody\<close> text
  as it stands, not decoded (and \<open>undefined\<close> when none is configured).
\<close>

theorem request_body_by_content_type:
  assumes "build_request rt config filePath = Inr request"
  shows "(config ''contentType'' = Some ''multipart/form-data'' \<longrightarrow>
            req_data request = DataForm [(config ''fileFieldName'', filePath)]
          \<and> (\<exists>len. getLength rt [(config ''fileFieldName'', filePath)] = Inr len
                \<and> req_headers request ''Content-Length'' = Some (HNum len)))
       \<and> (config ''contentType'' \<noteq> Some ''multipart/form-data'' \<longrightarrow>
            req_data request =
              (case config ''requestBody'' of
                 None \<Rightarrow> DataUndefined
               | Some s \<Rightarrow> DataValue (JStr s)))"
  using assms
  by (auto simp: build_request_def upload_form_def Let_def split: sum.splits option.splits if_splits)

theorem request_body_by_content_type_witness:
  "(\<exists>request. build_request (sample_runtime None) (getConfig (sample_options ''multipart/form-data''))
       ''/tmp/a.png'' = Inr request
     \<and> req_data request = DataForm [(Some ''file'', ''/tmp/a.png'')]
     \<and> req_headers request ''Content-Length'' = Some (HNum 200))
   \<and> (\<exists>request. build_request (sample_runtime None) (getConfig (sample_options ''application/json''))
       ''/tmp/a.png'' = Inr request
     \<and> req_data request = DataValue (JStr ''{}''))"
proof -
  obtain r1 where r1: "build_request (sample_runtime None)
      (getConfig (sample_options ''multipart/form-data'')) ''/tmp/a.png'' = Inr r1"
    using sample_request by blast
  obtain r2 where r2: "build_request (sample_runtime None)
      (getConfig (sample_options ''application/json'')) ''/tmp/a.png'' = Inr r2"
    using sample_request by blast
  have len: "getLength (sample_runtime None) fd = Inr 200" for fd
    by (simp add: sample_runtime_def)
  from request_body_by_content_type [OF r1] len
  have "req_data r1 = DataForm [(Some ''file'', ''/tmp/a.png'')]
      \<and> req_headers r1 ''Content-Length'' = Some (HNum 200)"
    by (auto simp: getConfig_sample)
  moreover from request_body_by_content_type [OF r2]
  have "req_data r2 = DataValue (JStr ''{}'')"
    by (simp add: getConfig_sample)
  ultimately show ?thesis using r1 r2 by blast
qed

theorem request_body_not_parsed_counterexample:
  "map_sum id req_data
     (build_request (sample_runtime None) (getConfig (sample_options ''application/json'')) ''/tmp/a.png'')
     = Inr (DataValue (JStr ''{}''))
   \<and> JSON_parse (sample_runtime None) ''{}'' = Inr (JObj [])
   \<and> DataValue (JStr ''{}'') \<noteq> DataValue (JObj [])"
  by (simp add: build_request_def getConfig_sample sample_runtime_def upload_form_def parse_table_def)

text \<open>
  Claim C9. Whatever the content type, a request that is built has appended the file
  to the form under the configured field name, and its headers are the form's multipart
  headers with \<open>Content-Length\<close> set to the length computed for that form.
\<close>

theorem request_headers_always_multipart:
  assumes "build_request rt config filePath = Inr request"
  shows "upload_form config filePath = [(config ''fileFieldName'', filePath)]
       \<and> (\<exists>len. getLength rt (upload_form config filePath) = Inr len
            \<and> req_headers request =
                (getHeaders rt (upload_form config filePath))(''Content-Length'' \<mapsto> HNum len))"
  using assms
  by (auto simp: build_request_def upload_form_def Let_def split: sum.splits option.splits if_splits)

theorem request_headers_always_multipart_witness:
  "\<exists>request. build_request (sample_runtime None) (getConfig (sample_options ''application/json'')) ''/tmp/a.png'' = Inr request
     \<and> req_data request = DataValue (JStr ''{}'')
     \<and> req_headers request ''Content-Length'' = Some (HNum 200)
     \<and> req_headers request ''content-type'' = Some (HStr ''multipart/form-data; boundary=b'')"
proof -
  obtain request where r: "build_request (sample_runtime None) (getConfig (sample_options ''application/json'')) ''/tmp/a.png'' = Inr request"
    and d: "req_data request = DataValue (JStr ''{}'')"
    by (simp add: build_request_def getConfig_sample sample_runtime_def upload_form_def)
  from request_headers_always_multipart [OF r] d r show ?thesis
    by (auto simp: sample_runtime_def)
qed

end
